theory Spec2Isabelle
  imports Main "HOL-Library.Word"
begin

unbundle bit_operations_syntax

section \<open>Python values\<close>

text \<open>
  The client handles dynamically typed data: the value produced by \<^verbatim>\<open>response.json()\<close>,
  the document produced by \<^verbatim>\<open>yaml.safe_load\<close>, the keyword arguments merged into a
  request body. One datatype covers them. A \<^verbatim>\<open>float\<close> is kept as its IEEE-754 bit
  pattern, a \<^verbatim>\<open>dict\<close> as a map from its keys; keys are strings (JSON objects have
  no other keys; a YAML document with other keys is outside the model). One \<open>char\<close>
  stands for one character of a Python \<^verbatim>\<open>str\<close>.
\<close>

datatype pyval =
    PNone
  | PBool bool
  | PInt int
  | PFloat "64 word"
  | PStr string
  | PList "pyval list"
  | PDict "string \<Rightarrow> pyval option"

type_synonym pydict = "string \<Rightarrow> pyval option"

text \<open>\<^verbatim>\<open>isinstance(v, dict)\<close>.\<close>

fun is_dict :: "pyval \<Rightarrow> bool" where
  "is_dict (PDict m) = True"
| "is_dict v = False"

text \<open>
  \<^verbatim>\<open>f == 0\<close> for a float: both zeros of IEEE-754 compare equal to the integer 0, that
  is every bit but the sign bit is clear.
\<close>

definition float_is_zero :: "64 word \<Rightarrow> bool" where
  "float_is_zero w = (w AND 0x7FFFFFFFFFFFFFFF = 0)"

text \<open>
  \<^verbatim>\<open>v != 0\<close>, the comparison of line 190. Python compares numbers by value across
  \<^verbatim>\<open>int\<close>, \<^verbatim>\<open>bool\<close> and \<^verbatim>\<open>float\<close> (\<^verbatim>\<open>False == 0\<close>, \<^verbatim>\<open>0.0 == 0\<close>);
  a value of any other type differs from 0.
\<close>

fun py_ne_zero :: "pyval \<Rightarrow> bool" where
  "py_ne_zero (PInt n) = (n \<noteq> 0)"
| "py_ne_zero (PBool b) = b"
| "py_ne_zero (PFloat w) = (\<not> float_is_zero w)"
| "py_ne_zero v = True"

text \<open>\<^verbatim>\<open>d.get(key, default)\<close> on a dict.\<close>

definition dict_get :: "pydict \<Rightarrow> string \<Rightarrow> pyval \<Rightarrow> pyval" where
  "dict_get d k dflt = (case d k of None \<Rightarrow> dflt | Some v \<Rightarrow> v)"

text \<open>\<^verbatim>\<open>needle in hay\<close> on two strings: substring containment.\<close>

fun str_contains :: "string \<Rightarrow> string \<Rightarrow> bool" where
  "str_contains needle [] = (needle = [])"
| "str_contains needle (c # cs) =
     (take (length needle) (c # cs) = needle \<or> str_contains needle cs)"

text \<open>\<^verbatim>\<open>s.rstrip('/')\<close>: every trailing slash is removed.\<close>

definition rstrip_slash :: "string \<Rightarrow> string" where
  "rstrip_slash s = rev (dropWhile (\<lambda>c. c = CHR ''/'') (rev s))"

section \<open>Exceptions\<close>

text \<open>
  Every exception the modelled code raises is a constructor, named after its Python class.
  The messages are Chinese f-strings; the model keeps the interpolated values instead of the
  rendered text:
  \<^item> \<open>FileNotFoundError p\<close>: line 84, \<open>p\<close> the configuration path;
  \<^item> \<open>ValueError_env e\<close>: line 96, environment \<open>e\<close> is not in the document;
  \<^item> \<open>ValueError_base_url e\<close>: line 102, the block of \<open>e\<close> has no \<^verbatim>\<open>base_url\<close>;
  \<^item> \<open>ValueError_json t\<close>: line 186, \<open>t\<close> the first 200 characters of the body;
  \<^item> \<open>HTTPError_status s\<close>: \<^verbatim>\<open>requests.HTTPError\<close> of \<^verbatim>\<open>raise_for_status()\<close>;
  \<^item> \<open>HTTPError_api c m\<close>: \<^verbatim>\<open>requests.HTTPError\<close> of line 193, built from
    \<^verbatim>\<open>data['code']\<close> and \<^verbatim>\<open>data.get('message', ...)\<close>; \<open>m = None\<close> stands for the
    default text used when the body has no \<^verbatim>\<open>message\<close>;
  \<^item> \<open>Timeout\<close>, \<open>ConnectionError\<close>, \<open>RequestException\<close>: raised by the transport;
  \<^item> \<open>AttributeError\<close>, \<open>TypeError\<close>: raised by Python itself on a value of the wrong shape;
  \<^item> \<open>FrozenInstanceError\<close>: raised by a frozen dataclass on an attribute assignment;
  \<^item> \<open>OtherError\<close>: anything else the environment raises (an unreadable file, a YAML
    syntax error).
\<close>

datatype error =
    FileNotFoundError string
  | ValueError_env pyval
  | ValueError_base_url pyval
  | ValueError_json string
  | HTTPError_status nat
  | HTTPError_api pyval "pyval option"
  | Timeout
  | ConnectionError
  | RequestException
  | AttributeError
  | TypeError
  | FrozenInstanceError
  | OtherError string

section \<open>Configuration\<close>

text \<open>
  \<^verbatim>\<open>WeapmConfig\<close> is a \<^verbatim>\<open>@dataclass\<close>. Its annotations are not enforced at run time:
  \<^verbatim>\<open>from_dict\<close> stores whatever the document holds, so every field is a Python value.
\<close>

record WeapmConfig =
  base_url :: pyval
  username :: pyval
  password :: pyval
  timeout :: pyval
  max_retries :: pyval
  retry_backoff_factor :: pyval
  pool_connections :: pyval
  pool_maxsize :: pyval
  enable_logging :: pyval

text \<open>The float literal \<^verbatim>\<open>0.5\<close> as a double.\<close>

definition float_half :: "64 word" where
  "float_half = 0x3FE0000000000000"

text \<open>\<^verbatim>\<open>WeapmConfig.from_dict\<close> (lines 47--59).\<close>

definition from_dict :: "pydict \<Rightarrow> WeapmConfig" where
  "from_dict config_dict =
     \<lparr> base_url = dict_get config_dict ''base_url'' (PStr []),
       username = dict_get config_dict ''username'' (PStr ''weapmUser''),
       password = dict_get config_dict ''password'' (PStr ''Weapm@123admin''),
       timeout = dict_get config_dict ''timeout'' (PInt 30),
       max_retries = dict_get config_dict ''max_retries'' (PInt 3),
       retry_backoff_factor = dict_get config_dict ''retry_backoff_factor'' (PFloat float_half),
       pool_connections = dict_get config_dict ''pool_connections'' (PInt 10),
       pool_maxsize = dict_get config_dict ''pool_maxsize'' (PInt 10),
       enable_logging = dict_get config_dict ''enable_logging'' (PBool True) \<rparr>"

text \<open>
  The file system as \<^verbatim>\<open>from_yaml\<close> sees it: \<open>None\<close> when \<^verbatim>\<open>os.path.exists\<close> is false,
  \<open>Some (Inl e)\<close> when opening or parsing the file raises \<open>e\<close>, \<open>Some (Inr doc)\<close>
  when \<^verbatim>\<open>yaml.safe_load\<close> returns \<open>doc\<close>.
\<close>

type_synonym filesystem = "string \<Rightarrow> (error + pyval) option"

text \<open>
  Lines 91--92 on a document that is a dict: the environment is the argument when given,
  else the document's \<^verbatim>\<open>active_env\<close>, else the literal \<^verbatim>\<open>'dev'\<close>.
\<close>

definition selected_env :: "pydict \<Rightarrow> string option \<Rightarrow> pyval" where
  "selected_env config_data env =
     (case env of
        None \<Rightarrow> dict_get config_data ''active_env'' (PStr ''dev'')
      | Some e \<Rightarrow> PStr e)"

text \<open>
  Lines 98--105 on the selected block \<^verbatim>\<open>env_config\<close>. \<^verbatim>\<open>'base_url' not in env_config\<close>
  is key membership on a dict, substring containment on a string, element membership on
  a list, and a \<^verbatim>\<open>TypeError\<close> on anything else; \<^verbatim>\<open>env_config.get\<close> of line 104 exists
  on a dict only. The \<^verbatim>\<open>print\<close> of line 104 is not modelled.
\<close>

fun check_block :: "pyval \<Rightarrow> pyval \<Rightarrow> error + WeapmConfig" where
  "check_block env (PDict env_config) =
     (if env_config ''base_url'' = None then Inl (ValueError_base_url env)
      else Inr (from_dict env_config))"
| "check_block env (PStr s) =
     (if \<not> str_contains ''base_url'' s then Inl (ValueError_base_url env)
      else Inl AttributeError)"
| "check_block env (PList xs) =
     (if PStr ''base_url'' \<notin> set xs then Inl (ValueError_base_url env)
      else Inl AttributeError)"
| "check_block env v = Inl TypeError"

text \<open>
  Lines 95--98 on a document that is a dict: \<^verbatim>\<open>env not in config_data\<close> hashes \<^verbatim>\<open>env\<close>
  (a list or dict is unhashable) and looks it up; no key equals a value that is not a string.
\<close>

fun lookup_env :: "pydict \<Rightarrow> pyval \<Rightarrow> error + pyval" where
  "lookup_env config_data (PStr e) =
     (case config_data e of
        None \<Rightarrow> Inl (ValueError_env (PStr e))
      | Some env_config \<Rightarrow> Inr env_config)"
| "lookup_env config_data (PList xs) = Inl TypeError"
| "lookup_env config_data (PDict d) = Inl TypeError"
| "lookup_env config_data v = Inl (ValueError_env v)"

text \<open>
  Lines 91--98 on a document that is not a dict. With no \<^verbatim>\<open>env\<close>, \<^verbatim>\<open>config_data.get\<close>
  raises \<^verbatim>\<open>AttributeError\<close>. With \<^verbatim>\<open>env\<close> given, \<^verbatim>\<open>env not in config_data\<close> is substring
  containment on a string and element membership on a list: when it finds \<^verbatim>\<open>env\<close>,
  \<^verbatim>\<open>config_data[env]\<close> raises \<^verbatim>\<open>TypeError\<close>; when it does not, building the message of
  line 96 calls \<^verbatim>\<open>config_data.keys()\<close> and raises \<^verbatim>\<open>AttributeError\<close>. On any other
  value \<^verbatim>\<open>in\<close> raises \<^verbatim>\<open>TypeError\<close>.
\<close>

fun non_dict_document :: "pyval \<Rightarrow> string option \<Rightarrow> error" where
  "non_dict_document v None = AttributeError"
| "non_dict_document (PStr s) (Some e) = (if str_contains e s then TypeError else AttributeError)"
| "non_dict_document (PList xs) (Some e) = (if PStr e \<in> set xs then TypeError else AttributeError)"
| "non_dict_document v (Some e) = TypeError"

text \<open>
  \<^verbatim>\<open>WeapmConfig.from_yaml\<close> (lines 62--105). \<open>default_path\<close> is
  \<^verbatim>\<open>Path(__file__).parent / "config.yaml"\<close>.
\<close>

definition from_yaml ::
  "filesystem \<Rightarrow> string \<Rightarrow> string option \<Rightarrow> string option \<Rightarrow> error + WeapmConfig" where
  "from_yaml fs default_path config_path env =
     (let path = (case config_path of None \<Rightarrow> default_path | Some p \<Rightarrow> p) in
      case fs path of
        None \<Rightarrow> Inl (FileNotFoundError path)
      | Some (Inl e) \<Rightarrow> Inl e
      | Some (Inr (PDict config_data)) \<Rightarrow>
          (let env' = selected_env config_data env in
           case lookup_env config_data env' of
             Inl e \<Rightarrow> Inl e
           | Inr env_config \<Rightarrow> check_block env' env_config)
      | Some (Inr v) \<Rightarrow> Inl (non_dict_document v env))"

section \<open>Client\<close>

text \<open>
  The \<^verbatim>\<open>requests.Session\<close> as the client configures it (lines 119--139): credentials,
  retry policy, pool sizes, mounted prefixes, and whether \<^verbatim>\<open>close()\<close> has been called.
\<close>

record Session =
  auth :: "pyval \<times> pyval"
  retry_total :: pyval
  retry_backoff :: pyval
  status_forcelist :: "nat list"
  method_whitelist :: "string list"
  adapter_pool_connections :: pyval
  adapter_pool_maxsize :: pyval
  mounts :: "string list"
  closed :: bool

record WeapmClient =
  config :: WeapmConfig
  session :: Session
  client_base_url :: string
  client_timeout :: pyval

text \<open>
  \<^verbatim>\<open>WeapmClient.__init__\<close> (lines 111--141). \<^verbatim>\<open>config.base_url.rstrip('/')\<close> exists on
  a string only. The constructors of \<^verbatim>\<open>Retry\<close> and \<^verbatim>\<open>HTTPAdapter\<close> are taken to accept
  their arguments (an urllib3 that still knows \<^verbatim>\<open>method_whitelist\<close>). Logging is not
  modelled.
\<close>

definition WeapmClient_init :: "WeapmConfig \<Rightarrow> error + WeapmClient" where
  "WeapmClient_init cfg =
     (case base_url cfg of
        PStr s \<Rightarrow>
          Inr \<lparr> config = cfg,
                session = \<lparr> auth = (username cfg, password cfg),
                            retry_total = max_retries cfg,
                            retry_backoff = retry_backoff_factor cfg,
                            status_forcelist = [429, 500, 502, 503, 504],
                            method_whitelist =
                              [''HEAD'', ''GET'', ''OPTIONS'', ''POST'', ''PUT'', ''DELETE''],
                            adapter_pool_connections = pool_connections cfg,
                            adapter_pool_maxsize = pool_maxsize cfg,
                            mounts = [''http://'', ''https://''],
                            closed = False \<rparr>,
                client_base_url = rstrip_slash s,
                client_timeout = timeout cfg \<rparr>
      | _ \<Rightarrow> Inl AttributeError)"

text \<open>
  What \<^verbatim>\<open>_request\<close> hands to \<^verbatim>\<open>session.request\<close>: method, URL and the keyword arguments
  the client uses (\<^verbatim>\<open>json\<close>, \<^verbatim>\<open>params\<close>, \<^verbatim>\<open>timeout\<close>).
\<close>

record request_kwargs =
  kw_json :: "pydict option"
  kw_params :: "pydict option"
  kw_timeout :: "pyval option"

record request =
  req_method :: string
  req_url :: string
  req_json :: "pydict option"
  req_params :: "pydict option"
  req_timeout :: pyval

definition no_kwargs :: request_kwargs where
  "no_kwargs = \<lparr> kw_json = None, kw_params = None, kw_timeout = None \<rparr>"

text \<open>
  The answer of \<^verbatim>\<open>session.request\<close>, after the adapter's retries: an exception, or a
  response with its status, its body decoded by \<^verbatim>\<open>response.json()\<close> (\<open>None\<close> when that
  raises \<^verbatim>\<open>JSONDecodeError\<close>) and its text.
\<close>

record response =
  status_code :: nat
  body_json :: "pyval option"
  body_text :: string

datatype outcome = Raises error | Responds response

type_synonym transport = "request \<Rightarrow> outcome"

text \<open>Line 158 and line 159: the URL, and \<^verbatim>\<open>kwargs.setdefault('timeout', self.timeout)\<close>.\<close>

definition request_url :: "WeapmClient \<Rightarrow> string \<Rightarrow> string" where
  "request_url c endpoint = client_base_url c @ endpoint"

definition build_request :: "WeapmClient \<Rightarrow> string \<Rightarrow> string \<Rightarrow> request_kwargs \<Rightarrow> request" where
  "build_request c method endpoint kwargs =
     \<lparr> req_method = method,
       req_url = request_url c endpoint,
       req_json = kw_json kwargs,
       req_params = kw_params kwargs,
       req_timeout = (case kw_timeout kwargs of None \<Rightarrow> client_timeout c | Some t \<Rightarrow> t) \<rparr>"

text \<open>
  Lines 179--197: \<^verbatim>\<open>raise_for_status()\<close> raises on a status from 400 to 599; the body is
  decoded; a dict with a \<^verbatim>\<open>code\<close> that differs from 0 raises.
\<close>

definition check_response :: "response \<Rightarrow> error + pyval" where
  "check_response r =
     (if 400 \<le> status_code r \<and> status_code r < 600 then Inl (HTTPError_status (status_code r))
      else case body_json r of
        None \<Rightarrow> Inl (ValueError_json (take 200 (body_text r)))
      | Some data \<Rightarrow>
          (case data of
             PDict d \<Rightarrow>
               (case d ''code'' of
                  None \<Rightarrow> Inr data
                | Some code \<Rightarrow>
                    if py_ne_zero code then Inl (HTTPError_api code (d ''message''))
                    else Inr data)
           | _ \<Rightarrow> Inr data))"

text \<open>
  \<^verbatim>\<open>WeapmClient._request\<close> (lines 143--212). Each \<^verbatim>\<open>except\<close> clause logs and re-raises,
  so an exception leaves the method as it was raised.
\<close>

definition WeapmClient_request ::
  "WeapmClient \<Rightarrow> transport \<Rightarrow> string \<Rightarrow> string \<Rightarrow> request_kwargs \<Rightarrow> error + pyval" where
  "WeapmClient_request c t method endpoint kwargs =
     (case t (build_request c method endpoint kwargs) of
        Raises e \<Rightarrow> Inl e
      | Responds r \<Rightarrow> check_response r)"

section \<open>Operations\<close>

text \<open>
  \<^verbatim>\<open>response.get('result', [])\<close> on what \<^verbatim>\<open>_request\<close> returned: only a dict has
  \<^verbatim>\<open>get\<close>; an exception of \<^verbatim>\<open>_request\<close> propagates.
\<close>

definition unwrap_result :: "error + pyval \<Rightarrow> error + pyval" where
  "unwrap_result r =
     (case r of
        Inl e \<Rightarrow> Inl e
      | Inr (PDict d) \<Rightarrow> Inr (dict_get d ''result'' (PList []))
      | Inr v \<Rightarrow> Inl AttributeError)"

text \<open>\<^verbatim>\<open>str(n)\<close> for an \<^verbatim>\<open>int\<close>, as an f-string renders it.\<close>

fun digits :: "nat \<Rightarrow> string" where
  "digits n =
     (if n < 10 then [char_of (48 + n)]
      else digits (n div 10) @ [char_of (48 + n mod 10)])"

declare digits.simps [simp del]

definition str_of_int :: "int \<Rightarrow> string" where
  "str_of_int i = (if i < 0 then CHR ''-'' # digits (nat (- i)) else digits (nat i))"

definition get_dashboard :: "WeapmClient \<Rightarrow> transport \<Rightarrow> error + pyval" where
  "get_dashboard c t = WeapmClient_request c t ''GET'' ''/operation/dashboard'' no_kwargs"

definition get_clusters :: "WeapmClient \<Rightarrow> transport \<Rightarrow> error + pyval" where
  "get_clusters c t =
     unwrap_result (WeapmClient_request c t ''GET'' ''/operation/clusters'' no_kwargs)"

definition get_cluster_detail :: "WeapmClient \<Rightarrow> transport \<Rightarrow> string \<Rightarrow> error + pyval" where
  "get_cluster_detail c t cluster_name =
     WeapmClient_request c t ''GET'' (''/operation/clusters/'' @ cluster_name) no_kwargs"

text \<open>
  The body of \<^verbatim>\<open>add_cluster_node\<close> (lines 286--299). \<open>kwargs\<close> is the dict Python binds
  to \<^verbatim>\<open>**kwargs\<close>; \<^verbatim>\<open>data.update(kwargs)\<close> lets its entries win.
\<close>

definition add_cluster_node_data ::
  "string \<Rightarrow> string \<Rightarrow> string \<Rightarrow> string option \<Rightarrow> string option \<Rightarrow> pydict \<Rightarrow> pydict" where
  "add_cluster_node_data cluster_name address role cpulimit memlimit kwargs =
     (let data = [''address'' \<mapsto> PStr address,
                  ''clustername'' \<mapsto> PStr cluster_name,
                  ''role'' \<mapsto> PStr role];
          data = (case cpulimit of None \<Rightarrow> data | Some v \<Rightarrow> data(''cpulimit'' \<mapsto> PStr v));
          data = (case memlimit of None \<Rightarrow> data | Some v \<Rightarrow> data(''memlimit'' \<mapsto> PStr v))
      in data ++ kwargs)"

definition add_cluster_node ::
  "WeapmClient \<Rightarrow> transport \<Rightarrow> string \<Rightarrow> string \<Rightarrow> string \<Rightarrow> string option \<Rightarrow> string option
     \<Rightarrow> pydict \<Rightarrow> error + pyval" where
  "add_cluster_node c t cluster_name address role cpulimit memlimit kwargs =
     WeapmClient_request c t ''POST'' (''/operation/clusters/'' @ cluster_name @ ''/nodes'')
       (no_kwargs\<lparr>kw_json :=
          Some (add_cluster_node_data cluster_name address role cpulimit memlimit kwargs)\<rparr>)"

definition delete_cluster_node :: "WeapmClient \<Rightarrow> transport \<Rightarrow> string \<Rightarrow> error + pyval" where
  "delete_cluster_node c t ip =
     WeapmClient_request c t ''DELETE'' (''/operation/clusters/nodes/'' @ ip) no_kwargs"

definition get_cluster_subsystems :: "WeapmClient \<Rightarrow> transport \<Rightarrow> string \<Rightarrow> error + pyval" where
  "get_cluster_subsystems c t cluster_name =
     unwrap_result
       (WeapmClient_request c t ''GET''
          (''/operation/cluster/'' @ cluster_name @ ''/subsystems'') no_kwargs)"

definition check_subsystem_exists :: "WeapmClient \<Rightarrow> transport \<Rightarrow> string \<Rightarrow> error + pyval" where
  "check_subsystem_exists c t subsystem_id =
     WeapmClient_request c t ''GET'' (''/operation/subsystem/exists/'' @ subsystem_id) no_kwargs"

definition add_subsystem ::
  "WeapmClient \<Rightarrow> transport \<Rightarrow> string \<Rightarrow> string \<Rightarrow> string \<Rightarrow> int \<Rightarrow> string \<Rightarrow> error + pyval" where
  "add_subsystem c t sub_system_id log_import_value log_import_files traffic cluster =
     WeapmClient_request c t ''POST'' ''/operation/subsystem''
       (no_kwargs\<lparr>kw_json :=
          Some [''subSystemId'' \<mapsto> PStr sub_system_id,
                ''logImportValue'' \<mapsto> PStr log_import_value,
                ''logImportFiles'' \<mapsto> PStr log_import_files,
                ''traffic'' \<mapsto> PInt traffic,
                ''cluster'' \<mapsto> PStr cluster]\<rparr>)"

definition adjust_subsystem_cluster ::
  "WeapmClient \<Rightarrow> transport \<Rightarrow> string \<Rightarrow> string \<Rightarrow> string \<Rightarrow> string \<Rightarrow> int \<Rightarrow> error + pyval" where
  "adjust_subsystem_cluster c t subsystem_id target_cluster_name log_import_value
       log_import_files traffic =
     WeapmClient_request c t ''POST''
       (''/operation/subsystem/'' @ subsystem_id @ ''?targetClusterName='' @ target_cluster_name
          @ ''&logImportValue='' @ log_import_value @ ''&logImportFiles='' @ log_import_files
          @ ''&traffic='' @ str_of_int traffic)
       no_kwargs"

definition adjust_subsystem_status ::
  "WeapmClient \<Rightarrow> transport \<Rightarrow> string \<Rightarrow> string \<Rightarrow> error + pyval" where
  "adjust_subsystem_status c t subsystem_id status =
     WeapmClient_request c t ''POST''
       (''/operation/subsystem/'' @ subsystem_id @ ''/status/'' @ status) no_kwargs"

definition enable_subsystem :: "WeapmClient \<Rightarrow> transport \<Rightarrow> string \<Rightarrow> error + pyval" where
  "enable_subsystem c t subsystem_id =
     WeapmClient_request c t ''PUT'' (''/operation/subsystem/'' @ subsystem_id @ ''/enable'')
       no_kwargs"

definition get_subsystem_detail :: "WeapmClient \<Rightarrow> transport \<Rightarrow> string \<Rightarrow> error + pyval" where
  "get_subsystem_detail c t subsystem_id =
     WeapmClient_request c t ''GET'' (''/operation/subsystem/'' @ subsystem_id) no_kwargs"

definition get_subsystems :: "WeapmClient \<Rightarrow> transport \<Rightarrow> error + pyval" where
  "get_subsystems c t =
     unwrap_result (WeapmClient_request c t ''GET'' ''/operation/subsystems'' no_kwargs)"

text \<open>
  The \<^verbatim>\<open>params\<close> of \<^verbatim>\<open>search_subsystems\<close> (lines 445--449). \<^verbatim>\<open>if subsys_id:\<close> is
  the truth value of an optional string: false on \<^verbatim>\<open>None\<close> and on the empty string.
\<close>

text \<open>An argument annotated \<^verbatim>\<open>Optional[str]\<close> as a Python value.\<close>

fun optional_str :: "string option \<Rightarrow> pyval" where
  "optional_str None = PNone"
| "optional_str (Some s) = PStr s"

fun truthy :: "string option \<Rightarrow> bool" where
  "truthy None = False"
| "truthy (Some s) = (s \<noteq> [])"

definition search_subsystems_params :: "string option \<Rightarrow> int \<Rightarrow> pydict" where
  "search_subsystems_params subsys_id limit =
     (let params = Map.empty;
          params = (if truthy subsys_id then params(''subsysId'' \<mapsto> optional_str subsys_id)
                    else params);
          params = (if limit \<noteq> 20 then params(''limit'' \<mapsto> PInt limit) else params)
      in params)"

definition search_subsystems ::
  "WeapmClient \<Rightarrow> transport \<Rightarrow> string option \<Rightarrow> int \<Rightarrow> error + pyval" where
  "search_subsystems c t subsys_id limit =
     unwrap_result
       (WeapmClient_request c t ''GET'' ''/operation/subsystems/search''
          (no_kwargs\<lparr>kw_params := Some (search_subsystems_params subsys_id limit)\<rparr>))"

section \<open>Session scope\<close>

text \<open>\<^verbatim>\<open>close\<close> (lines 456--458): \<^verbatim>\<open>self.session.close()\<close>.\<close>

definition close :: "WeapmClient \<Rightarrow> WeapmClient" where
  "close c = c\<lparr>session := (session c)\<lparr>closed := True\<rparr>\<rparr>"

text \<open>\<^verbatim>\<open>__enter__\<close> (lines 460--462) returns the client itself.\<close>

definition WeapmClient_enter :: "WeapmClient \<Rightarrow> WeapmClient" where
  "WeapmClient_enter c = c"

text \<open>
  \<^verbatim>\<open>__exit__\<close> (lines 464--466) calls \<^verbatim>\<open>close()\<close> whatever it is given, and returns
  \<^verbatim>\<open>None\<close>: an exception of the block is not suppressed.
\<close>

definition WeapmClient_exit ::
  "WeapmClient \<Rightarrow> string option \<Rightarrow> error option \<Rightarrow> nat option \<Rightarrow> WeapmClient" where
  "WeapmClient_exit c exc_type exc_val exc_tb = close c"

text \<open>
  The exception information Python passes to \<^verbatim>\<open>__exit__\<close>: three \<^verbatim>\<open>None\<close> when the
  block completed, else the exception's class, the exception and its traceback (an opaque
  number here).
\<close>

fun error_class :: "error \<Rightarrow> string" where
  "error_class (FileNotFoundError p) = ''FileNotFoundError''"
| "error_class (ValueError_env e) = ''ValueError''"
| "error_class (ValueError_base_url e) = ''ValueError''"
| "error_class (ValueError_json s) = ''ValueError''"
| "error_class (HTTPError_status s) = ''HTTPError''"
| "error_class (HTTPError_api c m) = ''HTTPError''"
| "error_class Timeout = ''Timeout''"
| "error_class ConnectionError = ''ConnectionError''"
| "error_class RequestException = ''RequestException''"
| "error_class AttributeError = ''AttributeError''"
| "error_class TypeError = ''TypeError''"
| "error_class FrozenInstanceError = ''FrozenInstanceError''"
| "error_class (OtherError n) = n"

text \<open>
  \<^verbatim>\<open>with client: block\<close>. The block runs on what \<^verbatim>\<open>__enter__\<close> returned and ends with
  a value or an exception, leaving the client in some state; \<^verbatim>\<open>__exit__\<close> is then called
  with the exception information, and the block's outcome is the statement's.
\<close>

definition with_client ::
  "WeapmClient \<Rightarrow> (WeapmClient \<Rightarrow> (error + 'a) \<times> WeapmClient) \<Rightarrow> (error + 'a) \<times> WeapmClient" where
  "with_client c block =
     (case block (WeapmClient_enter c) of
        (Inl e, c') \<Rightarrow> (Inl e, WeapmClient_exit c' (Some (error_class e)) (Some e) (Some 0))
      | (Inr v, c') \<Rightarrow> (Inr v, WeapmClient_exit c' None None None))"

section \<open>The client's methods as one step function\<close>

text \<open>
  One constructor for each public method of \<^verbatim>\<open>WeapmClient\<close>, with its arguments. The
  request methods assign no attribute of \<^verbatim>\<open>self\<close>, so they leave the client as it was;
  \<^verbatim>\<open>close\<close> returns \<^verbatim>\<open>None\<close>.
\<close>

datatype call =
    Get_dashboard
  | Get_clusters
  | Get_cluster_detail string
  | Add_cluster_node string string string "string option" "string option" pydict
  | Delete_cluster_node string
  | Get_cluster_subsystems string
  | Check_subsystem_exists string
  | Add_subsystem string string string int string
  | Adjust_subsystem_cluster string string string string int
  | Adjust_subsystem_status string string
  | Enable_subsystem string
  | Get_subsystem_detail string
  | Get_subsystems
  | Search_subsystems "string option" int
  | Close

fun perform :: "WeapmClient \<Rightarrow> transport \<Rightarrow> call \<Rightarrow> (error + pyval) \<times> WeapmClient" where
  "perform c t Get_dashboard = (get_dashboard c t, c)"
| "perform c t Get_clusters = (get_clusters c t, c)"
| "perform c t (Get_cluster_detail n) = (get_cluster_detail c t n, c)"
| "perform c t (Add_cluster_node n a r cpu mem kw) = (add_cluster_node c t n a r cpu mem kw, c)"
| "perform c t (Delete_cluster_node ip) = (delete_cluster_node c t ip, c)"
| "perform c t (Get_cluster_subsystems n) = (get_cluster_subsystems c t n, c)"
| "perform c t (Check_subsystem_exists i) = (check_subsystem_exists c t i, c)"
| "perform c t (Add_subsystem i v f tr cl) = (add_subsystem c t i v f tr cl, c)"
| "perform c t (Adjust_subsystem_cluster i n v f tr) = (adjust_subsystem_cluster c t i n v f tr, c)"
| "perform c t (Adjust_subsystem_status i s) = (adjust_subsystem_status c t i s, c)"
| "perform c t (Enable_subsystem i) = (enable_subsystem c t i, c)"
| "perform c t (Get_subsystem_detail i) = (get_subsystem_detail c t i, c)"
| "perform c t Get_subsystems = (get_subsystems c t, c)"
| "perform c t (Search_subsystems s l) = (search_subsystems c t s l, c)"
| "perform c t Close = (Inr PNone, close c)"

text \<open>A caller making one call after another, whatever each call returned or raised.\<close>

fun perform_all :: "WeapmClient \<Rightarrow> transport \<Rightarrow> call list \<Rightarrow> WeapmClient" where
  "perform_all c t [] = c"
| "perform_all c t (x # xs) = perform_all (snd (perform c t x)) t xs"

section \<open>Attribute assignment on the configuration\<close>

text \<open>
  Line 33 decorates \<^verbatim>\<open>WeapmConfig\<close> with a bare \<^verbatim>\<open>@dataclass\<close>, whose \<^verbatim>\<open>frozen\<close>
  parameter is \<^verbatim>\<open>False\<close> by default.
\<close>

definition WeapmConfig_frozen :: bool where
  "WeapmConfig_frozen = False"

text \<open>
  \<^verbatim>\<open>cfg.name = v\<close> on a dataclass instance: a frozen dataclass raises
  \<^verbatim>\<open>FrozenInstanceError\<close>, any other rebinds the attribute. An attribute that is not a
  field is added to the instance and changes no field.
\<close>

definition dataclass_setattr ::
  "bool \<Rightarrow> WeapmConfig \<Rightarrow> string \<Rightarrow> pyval \<Rightarrow> error + WeapmConfig" where
  "dataclass_setattr frozen cfg name v =
     (if frozen then Inl FrozenInstanceError
      else if name = ''base_url'' then Inr (cfg\<lparr>base_url := v\<rparr>)
      else if name = ''username'' then Inr (cfg\<lparr>username := v\<rparr>)
      else if name = ''password'' then Inr (cfg\<lparr>password := v\<rparr>)
      else if name = ''timeout'' then Inr (cfg\<lparr>timeout := v\<rparr>)
      else if name = ''max_retries'' then Inr (cfg\<lparr>max_retries := v\<rparr>)
      else if name = ''retry_backoff_factor'' then Inr (cfg\<lparr>retry_backoff_factor := v\<rparr>)
      else if name = ''pool_connections'' then Inr (cfg\<lparr>pool_connections := v\<rparr>)
      else if name = ''pool_maxsize'' then Inr (cfg\<lparr>pool_maxsize := v\<rparr>)
      else if name = ''enable_logging'' then Inr (cfg\<lparr>enable_logging := v\<rparr>)
      else Inr cfg)"

definition WeapmConfig_setattr :: "WeapmConfig \<Rightarrow> string \<Rightarrow> pyval \<Rightarrow> error + WeapmConfig" where
  "WeapmConfig_setattr cfg name v = dataclass_setattr WeapmConfig_frozen cfg name v"

section \<open>Auxiliary notions for the statements\<close>

text \<open>
  The junction of a URL, in the words of the specification: the left part does not end
  with a slash and the right part begins with exactly one, so that joining them neither
  doubles nor drops the slash.
\<close>

fun ends_with_slash :: "string \<Rightarrow> bool" where
  "ends_with_slash s = (s \<noteq> [] \<and> last s = CHR ''/'')"

fun starts_with_one_slash :: "string \<Rightarrow> bool" where
  "starts_with_one_slash [] = False"
| "starts_with_one_slash [c] = (c = CHR ''/'')"
| "starts_with_one_slash (c # d # cs) = (c = CHR ''/'' \<and> d \<noteq> CHR ''/'')"

definition clean_junction :: "string \<Rightarrow> string \<Rightarrow> bool" where
  "clean_junction left right = (\<not> ends_with_slash left \<and> starts_with_one_slash right)"

text \<open>
  A transport that answers every request by raising an exception that carries the URL it
  was asked for: it makes the URL of a call observable in the call's result.
\<close>

definition echo_url :: transport where
  "echo_url req = Raises (OtherError (req_url req))"

text \<open>
  A concrete configuration, the one of the specification's example, and the client
  \<^verbatim>\<open>WeapmClient(example_config)\<close>.
\<close>

definition example_config :: WeapmConfig where
  "example_config = from_dict [''base_url'' \<mapsto> PStr ''http://host:8080/'']"

definition example_client :: WeapmClient where
  "example_client =
     \<lparr> config = example_config,
       session = \<lparr> auth = (PStr ''weapmUser'', PStr ''Weapm@123admin''),
                   retry_total = PInt 3,
                   retry_backoff = PFloat float_half,
                   status_forcelist = [429, 500, 502, 503, 504],
                   method_whitelist = [''HEAD'', ''GET'', ''OPTIONS'', ''POST'', ''PUT'', ''DELETE''],
                   adapter_pool_connections = PInt 10,
                   adapter_pool_maxsize = PInt 10,
                   mounts = [''http://'', ''https://''],
                   closed = False \<rparr>,
       client_base_url = ''http://host:8080'',
       client_timeout = PInt 30 \<rparr>"

text \<open>
  What Python's call binding guarantees of the dict bound to \<^verbatim>\<open>**kwargs\<close> of
  \<^verbatim>\<open>add_cluster_node\<close> (lines 249--251): a keyword that names a parameter is bound to that
  parameter, so it is never a key of \<^verbatim>\<open>kwargs\<close>.
\<close>

definition kwargs_bindable :: "pydict \<Rightarrow> bool" where
  "kwargs_bindable kwargs =
     (kwargs ''self'' = None \<and> kwargs ''cluster_name'' = None \<and> kwargs ''address'' = None
      \<and> kwargs ''role'' = None \<and> kwargs ''cpulimit'' = None \<and> kwargs ''memlimit'' = None)"

text \<open>
  Configuration documents for the examples: one that declares \<^verbatim>\<open>active_env: prod\<close> and
  whose \<^verbatim>\<open>prod\<close> block has no \<^verbatim>\<open>base_url\<close>, and two that declare no \<^verbatim>\<open>active_env\<close>
  and hold a \<^verbatim>\<open>dev\<close> block without and with \<^verbatim>\<open>base_url\<close>.
\<close>

definition example_document :: pydict where
  "example_document =
     [''active_env'' \<mapsto> PStr ''prod'',
      ''dev'' \<mapsto> PDict [''base_url'' \<mapsto> PStr ''http://host:8080/''],
      ''prod'' \<mapsto> PDict [''username'' \<mapsto> PStr ''admin'']]"

definition dev_without_base_url :: pydict where
  "dev_without_base_url = [''dev'' \<mapsto> PDict [''username'' \<mapsto> PStr ''admin'']]"

definition dev_with_base_url :: pydict where
  "dev_with_base_url = [''dev'' \<mapsto> PDict [''base_url'' \<mapsto> PStr ''http://host:8080/'']]"

text \<open>
  The document of a file whose only line is \<^verbatim>\<open>dev:\<close>: YAML gives the key the value
  \<^verbatim>\<open>None\<close>.
\<close>

definition dev_null_block :: pydict where
  "dev_null_block = [''dev'' \<mapsto> PNone]"

section \<open>Basic facts\<close>

lemma init_example: "WeapmClient_init example_config = Inr example_client"
  by (simp add: WeapmClient_init_def example_config_def example_client_def from_dict_def dict_get_def rstrip_slash_def)

lemma rstrip_slash_no_trailing: "\<not> ends_with_slash (rstrip_slash s)"
proof -
  let ?d = "dropWhile (\<lambda>c. c = CHR ''/'') (rev s)"
  have "?d \<noteq> [] \<Longrightarrow> hd ?d \<noteq> CHR ''/''"
    using hd_dropWhile [of "\<lambda>c. c = CHR ''/''" "rev s"] by simp
  then show ?thesis
    by (auto simp: rstrip_slash_def last_rev)
qed

lemma init_base_url:
  "WeapmClient_init cfg = Inr c \<Longrightarrow> base_url cfg = PStr b \<Longrightarrow> client_base_url c = rstrip_slash b"
  by (auto simp: WeapmClient_init_def)

lemma echo_paths:
  "call \<noteq> Close \<Longrightarrow>
     \<exists>p. fst (perform c echo_url call) = Inl (OtherError (client_base_url c @ p))
        \<and> starts_with_one_slash p"
  by (cases call)
     (simp_all add: echo_url_def WeapmClient_request_def build_request_def request_url_def
        unwrap_result_def get_dashboard_def get_clusters_def get_cluster_detail_def
        add_cluster_node_def delete_cluster_node_def get_cluster_subsystems_def
        check_subsystem_exists_def add_subsystem_def adjust_subsystem_cluster_def
        adjust_subsystem_status_def enable_subsystem_def get_subsystem_detail_def
        get_subsystems_def search_subsystems_def)

lemma request_unfold:
  "WeapmClient_request c t method endpoint kwargs =
     (case t \<lparr> req_method = method, req_url = client_base_url c @ endpoint,
                req_json = kw_json kwargs, req_params = kw_params kwargs,
                req_timeout = (case kw_timeout kwargs of None \<Rightarrow> client_timeout c | Some x \<Rightarrow> x) \<rparr>
      of Raises e \<Rightarrow> Inl e | Responds r \<Rightarrow> check_response r)"
  by (simp add: WeapmClient_request_def build_request_def request_url_def)

lemma data_no_optional:
  "add_cluster_node_data cn a r None None Map.empty =
     [''address'' \<mapsto> PStr a, ''clustername'' \<mapsto> PStr cn, ''role'' \<mapsto> PStr r]"
  by (simp add: add_cluster_node_data_def)

lemma data_kwargs:
  "kwargs k = Some v \<Longrightarrow> add_cluster_node_data cn a r cpu mem kwargs k = Some v"
  by (simp add: add_cluster_node_data_def Let_def map_add_def)

lemma data_outside_kwargs:
  "kwargs k = None \<Longrightarrow>
     add_cluster_node_data cn a r cpu mem kwargs k =
       (if k = ''memlimit'' \<and> mem \<noteq> None then map_option PStr mem
        else if k = ''cpulimit'' \<and> cpu \<noteq> None then map_option PStr cpu
        else [''address'' \<mapsto> PStr a, ''clustername'' \<mapsto> PStr cn, ''role'' \<mapsto> PStr r] k)"
  by (cases cpu; cases mem) (simp_all add: add_cluster_node_data_def Let_def map_add_def)

lemma data_dom:
  "dom (add_cluster_node_data cn a r cpu mem kwargs) =
     {''address'', ''clustername'', ''role''}
       \<union> (case cpu of None \<Rightarrow> {} | Some v \<Rightarrow> {''cpulimit''})
       \<union> (case mem of None \<Rightarrow> {} | Some v \<Rightarrow> {''memlimit''})
       \<union> dom kwargs"
  by (cases cpu; cases mem) (auto simp: add_cluster_node_data_def Let_def)

lemma unwrap_checked:
  assumes "\<And>req. t req = Responds r"
    and "\<not> (400 \<le> status_code r \<and> status_code r < 600)"
    and "body_json r = Some (PDict d)"
    and "d ''code'' = Some code" and "\<not> py_ne_zero code"
  shows "unwrap_result (WeapmClient_request c t method endpoint kwargs)
           = Inr (dict_get d ''result'' (PList []))"
  using assms by (simp add: WeapmClient_request_def check_response_def unwrap_result_def)

lemma params_subsysId:
  "(''subsysId'' \<in> dom (search_subsystems_params subsys_id limit)) = truthy subsys_id"
  by (simp add: search_subsystems_params_def Let_def)

lemma params_limit:
  "(''limit'' \<in> dom (search_subsystems_params subsys_id limit)) = (limit \<noteq> 20)"
  by (simp add: search_subsystems_params_def Let_def)

lemma from_yaml_dict:
  assumes "path = (case config_path of None \<Rightarrow> default_path | Some p \<Rightarrow> p)"
    and "fs path = Some (Inr (PDict doc))"
  shows "from_yaml fs default_path config_path env =
           (case lookup_env doc (selected_env doc env) of
              Inl e \<Rightarrow> Inl e
            | Inr env_config \<Rightarrow> check_block (selected_env doc env) env_config)"
  using assms by (simp add: from_yaml_def Let_def)

lemma check_block_success:
  "(\<exists>cfg. check_block env v = Inr cfg)
     = (\<exists>block. v = PDict block \<and> block ''base_url'' \<noteq> None)"
  by (cases v) auto

lemma perform_config: "config (snd (perform c t call)) = config c"
  by (cases call) (simp_all add: close_def)

lemma perform_all_config: "config (perform_all c t calls) = config c"
  by (induction calls arbitrary: c) (simp_all add: perform_config)

section \<open>The request executor\<close>

text \<open>
  Claim C1. Whenever the transport answers with a status outside 400--599 and the decoded
  body is a dict with a \<^verbatim>\<open>code\<close>: if the code is 0 (more generally, compares equal to
  0) \<^verbatim>\<open>_request\<close> returns the dict; if it differs from 0, as 7 does, \<^verbatim>\<open>_request\<close>
  raises the \<^verbatim>\<open>requests.HTTPError\<close> of line 193, which carries the code and the body's
  \<^verbatim>\<open>message\<close>. A status of 200 is such a status: the transport's success does not
  prevent the error.
\<close>

theorem request_code_zero_returns_nonzero_raises:
  assumes "t (build_request c method endpoint kwargs) = Responds r"
    and "\<not> (400 \<le> status_code r \<and> status_code r < 600)"
    and "body_json r = Some (PDict d)"
    and "d ''code'' = Some code"
  shows "(code = PInt 0 \<longrightarrow>
            WeapmClient_request c t method endpoint kwargs = Inr (PDict d))
       \<and> (\<not> py_ne_zero code \<longrightarrow>
            WeapmClient_request c t method endpoint kwargs = Inr (PDict d))
       \<and> (py_ne_zero code \<longrightarrow>
            WeapmClient_request c t method endpoint kwargs
              = Inl (HTTPError_api code (d ''message'')))
       \<and> (\<forall>n. code = PInt n \<and> n \<noteq> 0 \<longrightarrow>
            WeapmClient_request c t method endpoint kwargs
              = Inl (HTTPError_api (PInt n) (d ''message'')))"
  using assms by (auto simp: WeapmClient_request_def check_response_def)

text \<open>
  The two bodies of the specification's example, \<^verbatim>\<open>{code: 0, result: X}\<close> and
  \<^verbatim>\<open>{code: 7, message: "m"}\<close>, each answered with status 200.
\<close>

theorem request_code_zero_returns_nonzero_raises_witness:
  "WeapmClient_request example_client
     (\<lambda>req. Responds \<lparr> status_code = 200,
                       body_json = Some (PDict [''code'' \<mapsto> PInt 0, ''result'' \<mapsto> PStr ''X'']),
                       body_text = [] \<rparr>)
     ''GET'' ''/operation/dashboard'' no_kwargs
     = Inr (PDict [''code'' \<mapsto> PInt 0, ''result'' \<mapsto> PStr ''X''])
   \<and> WeapmClient_request example_client
     (\<lambda>req. Responds \<lparr> status_code = 200,
                       body_json = Some (PDict [''code'' \<mapsto> PInt 7, ''message'' \<mapsto> PStr ''m'']),
                       body_text = [] \<rparr>)
     ''GET'' ''/operation/dashboard'' no_kwargs
     = Inl (HTTPError_api (PInt 7) (Some (PStr ''m'')))"
  using
    request_code_zero_returns_nonzero_raises
      [of "\<lambda>req. Responds \<lparr> status_code = 200,
                       body_json = Some (PDict [''code'' \<mapsto> PInt 0, ''result'' \<mapsto> PStr ''X'']),
                       body_text = [] \<rparr>"
          example_client "''GET''" "''/operation/dashboard''" no_kwargs
          "\<lparr> status_code = 200,
                       body_json = Some (PDict [''code'' \<mapsto> PInt 0, ''result'' \<mapsto> PStr ''X'']),
                       body_text = [] \<rparr>"
          "[''code'' \<mapsto> PInt 0, ''result'' \<mapsto> PStr ''X'']" "PInt 0"]
    request_code_zero_returns_nonzero_raises
      [of "\<lambda>req. Responds \<lparr> status_code = 200,
                       body_json = Some (PDict [''code'' \<mapsto> PInt 7, ''message'' \<mapsto> PStr ''m'']),
                       body_text = [] \<rparr>"
          example_client "''GET''" "''/operation/dashboard''" no_kwargs
          "\<lparr> status_code = 200,
                       body_json = Some (PDict [''code'' \<mapsto> PInt 7, ''message'' \<mapsto> PStr ''m'']),
                       body_text = [] \<rparr>"
          "[''code'' \<mapsto> PInt 7, ''message'' \<mapsto> PStr ''m'']" "PInt 7"]
  by simp

text \<open>
  Claim C2. When the decoded body is not a dict, \<^verbatim>\<open>_request\<close> never raises the
  application error of line 193, and with a 2xx status it returns the body unchanged:
  the \<^verbatim>\<open>code\<close> inspection is skipped.
\<close>

theorem request_non_mapping_body_returned:
  assumes "t (build_request c method endpoint kwargs) = Responds r"
    and "body_json r = Some data"
    and "\<not> is_dict data"
  shows "(200 \<le> status_code r \<and> status_code r < 300 \<longrightarrow>
            WeapmClient_request c t method endpoint kwargs = Inr data)
       \<and> (\<forall>code message.
            WeapmClient_request c t method endpoint kwargs \<noteq> Inl (HTTPError_api code message))"
  using assms by (cases data) (simp_all add: WeapmClient_request_def check_response_def)

text \<open>A JSON list answered with status 200 is returned as it is.\<close>

theorem request_non_mapping_body_returned_witness:
  "WeapmClient_request example_client
     (\<lambda>req. Responds \<lparr> status_code = 200,
                       body_json = Some (PList [PInt 1, PStr ''a'']),
                       body_text = [] \<rparr>)
     ''GET'' ''/operation/clusters'' no_kwargs
     = Inr (PList [PInt 1, PStr ''a''])"
  using
    request_non_mapping_body_returned
      [of "\<lambda>req. Responds \<lparr> status_code = 200,
                       body_json = Some (PList [PInt 1, PStr ''a'']),
                       body_text = [] \<rparr>"
          example_client "''GET''" "''/operation/clusters''" no_kwargs
          "\<lparr> status_code = 200,
                       body_json = Some (PList [PInt 1, PStr ''a'']),
                       body_text = [] \<rparr>"
          "PList [PInt 1, PStr ''a'']"]
  by simp

section \<open>The request URL\<close>

text \<open>
  Claim C3, as amended. For a client built from a configuration whose \<^verbatim>\<open>base_url\<close> is the
  string \<open>b\<close>, the URL of a request is \<open>b\<close> without its trailing slashes followed by
  the path, for every path. The stripped \<open>b\<close> never ends with a slash, so the junction
  has neither a doubled nor a missing slash whenever the path begins with exactly one
  slash; the path of every request method of the client does.
\<close>

theorem request_url_concatenation:
  assumes "WeapmClient_init cfg = Inr c" and "base_url cfg = PStr b"
  shows "request_url c path = rstrip_slash b @ path
       \<and> req_url (build_request c method path kwargs) = rstrip_slash b @ path
       \<and> \<not> ends_with_slash (rstrip_slash b)
       \<and> (starts_with_one_slash path \<longrightarrow> clean_junction (rstrip_slash b) path)
       \<and> (call \<noteq> Close \<longrightarrow>
            (\<exists>p. fst (perform c echo_url call) = Inl (OtherError (rstrip_slash b @ p))
                 \<and> clean_junction (rstrip_slash b) p))"
proof -
  have b: "client_base_url c = rstrip_slash b"
    using assms by (rule init_base_url)
  have e: "\<not> ends_with_slash (rstrip_slash b)"
    by (rule rstrip_slash_no_trailing)
  have "call \<noteq> Close \<Longrightarrow>
      \<exists>p. fst (perform c echo_url call) = Inl (OtherError (rstrip_slash b @ p))
         \<and> clean_junction (rstrip_slash b) p"
    using echo_paths [of call c] e unfolding b clean_junction_def by blast
  with b e show ?thesis
    by (simp add: request_url_def build_request_def clean_junction_def)
qed

text \<open>
  The specification's example: \<^verbatim>\<open>http://host:8080/\<close> and \<^verbatim>\<open>/operation/dashboard\<close>.
\<close>

theorem request_url_concatenation_witness:
  "request_url example_client ''/operation/dashboard'' = ''http://host:8080/operation/dashboard''
   \<and> clean_junction ''http://host:8080'' ''/operation/dashboard''
   \<and> fst (perform example_client echo_url Get_dashboard)
       = Inl (OtherError ''http://host:8080/operation/dashboard'')"
  using request_url_concatenation
      [OF init_example, of "''http://host:8080/''" "''/operation/dashboard''" "''GET''" no_kwargs
         Get_dashboard]
  by (simp add: example_config_def from_dict_def dict_get_def rstrip_slash_def
        get_dashboard_def WeapmClient_request_def echo_url_def build_request_def request_url_def
        example_client_def)

text \<open>
  The claim as first stated, for every path, fails: \<^verbatim>\<open>_request\<close> concatenates and does
  not look at the path, so a path without a leading slash is glued to the host.
\<close>

theorem request_url_missing_slash_counterexample:
  "WeapmClient_init example_config = Inr example_client
   \<and> base_url example_config = PStr ''http://host:8080/''
   \<and> request_url example_client ''operation/dashboard'' = ''http://host:8080operation/dashboard''
   \<and> req_url (build_request example_client ''GET'' ''operation/dashboard'' no_kwargs)
       = ''http://host:8080operation/dashboard''
   \<and> \<not> clean_junction (rstrip_slash ''http://host:8080/'') ''operation/dashboard''"
  by (simp add: WeapmClient_init_def rstrip_slash_def request_url_def build_request_def
        clean_junction_def example_client_def example_config_def from_dict_def dict_get_def)

section \<open>The body of the node-add request\<close>

text \<open>
  Claim C4. With no optional argument the body is exactly
  \<^verbatim>\<open>{address, clustername, role}\<close> bound to the arguments. \<^verbatim>\<open>cpulimit\<close> and
  \<^verbatim>\<open>memlimit\<close> are keys of the body exactly when the argument is not \<^verbatim>\<open>None\<close>, and are
  then bound to it. Every keyword argument is in the body with its value, beside the three
  required keys, and this body is the \<^verbatim>\<open>json\<close> of the POST request handed to the
  transport.
\<close>

theorem add_cluster_node_body:
  "add_cluster_node_data cluster_name address role None None Map.empty
     = [''address'' \<mapsto> PStr address, ''clustername'' \<mapsto> PStr cluster_name, ''role'' \<mapsto> PStr role]
   \<and> dom (add_cluster_node_data cluster_name address role None None Map.empty)
     = {''address'', ''clustername'', ''role''}
   \<and> (kwargs_bindable kwargs \<longrightarrow>
        ((''cpulimit'' \<in> dom (add_cluster_node_data cluster_name address role cpulimit memlimit kwargs))
           = (cpulimit \<noteq> None))
      \<and> ((''memlimit'' \<in> dom (add_cluster_node_data cluster_name address role cpulimit memlimit kwargs))
           = (memlimit \<noteq> None))
      \<and> add_cluster_node_data cluster_name address role cpulimit memlimit kwargs ''cpulimit''
           = map_option PStr cpulimit
      \<and> add_cluster_node_data cluster_name address role cpulimit memlimit kwargs ''memlimit''
           = map_option PStr memlimit
      \<and> add_cluster_node_data cluster_name address role cpulimit memlimit kwargs ''address''
           = Some (PStr address)
      \<and> add_cluster_node_data cluster_name address role cpulimit memlimit kwargs ''role''
           = Some (PStr role))
   \<and> (\<forall>k v. kwargs k = Some v \<longrightarrow>
         add_cluster_node_data cluster_name address role cpulimit memlimit kwargs k = Some v)
   \<and> (kwargs ''clustername'' = None \<longrightarrow>
         add_cluster_node_data cluster_name address role cpulimit memlimit kwargs ''clustername''
           = Some (PStr cluster_name))
   \<and> {''address'', ''clustername'', ''role''}
        \<subseteq> dom (add_cluster_node_data cluster_name address role cpulimit memlimit kwargs)
   \<and> add_cluster_node c t cluster_name address role cpulimit memlimit kwargs
       = (case t \<lparr> req_method = ''POST'',
                    req_url = client_base_url c @ ''/operation/clusters/'' @ cluster_name @ ''/nodes'',
                    req_json = Some (add_cluster_node_data cluster_name address role cpulimit
                                       memlimit kwargs),
                    req_params = None,
                    req_timeout = client_timeout c \<rparr>
          of Raises e \<Rightarrow> Inl e | Responds r \<Rightarrow> check_response r)"
proof -
  have 1: "dom (add_cluster_node_data cluster_name address role None None Map.empty)
     = {''address'', ''clustername'', ''role''}"
    by (simp add: data_dom)
  have 2: "kwargs_bindable kwargs \<Longrightarrow>
      add_cluster_node_data cluster_name address role cpulimit memlimit kwargs ''cpulimit''
           = map_option PStr cpulimit
      \<and> add_cluster_node_data cluster_name address role cpulimit memlimit kwargs ''memlimit''
           = map_option PStr memlimit
      \<and> add_cluster_node_data cluster_name address role cpulimit memlimit kwargs ''address''
           = Some (PStr address)
      \<and> add_cluster_node_data cluster_name address role cpulimit memlimit kwargs ''role''
           = Some (PStr role)"
    by (cases cpulimit; cases memlimit) (simp_all add: kwargs_bindable_def data_outside_kwargs)
  have 3: "kwargs_bindable kwargs \<Longrightarrow>
      ((''cpulimit'' \<in> dom (add_cluster_node_data cluster_name address role cpulimit memlimit kwargs))
           = (cpulimit \<noteq> None))
      \<and> ((''memlimit'' \<in> dom (add_cluster_node_data cluster_name address role cpulimit memlimit kwargs))
           = (memlimit \<noteq> None))"
    using 2 by (auto simp: domIff)
  have 4: "kwargs ''clustername'' = None \<Longrightarrow>
         add_cluster_node_data cluster_name address role cpulimit memlimit kwargs ''clustername''
           = Some (PStr cluster_name)"
    by (simp add: data_outside_kwargs)
  have 5: "{''address'', ''clustername'', ''role''}
        \<subseteq> dom (add_cluster_node_data cluster_name address role cpulimit memlimit kwargs)"
    by (simp add: data_dom)
  have 6: "add_cluster_node c t cluster_name address role cpulimit memlimit kwargs
       = (case t \<lparr> req_method = ''POST'',
                    req_url = client_base_url c @ ''/operation/clusters/'' @ cluster_name @ ''/nodes'',
                    req_json = Some (add_cluster_node_data cluster_name address role cpulimit
                                       memlimit kwargs),
                    req_params = None,
                    req_timeout = client_timeout c \<rparr>
          of Raises e \<Rightarrow> Inl e | Responds r \<Rightarrow> check_response r)"
    by (simp add: add_cluster_node_def request_unfold no_kwargs_def)
  show ?thesis
    using 1 2 3 4 5 6 data_no_optional [of cluster_name address role] data_kwargs [of kwargs _ _ cluster_name address role cpulimit memlimit]
    by (intro conjI impI allI) (simp_all only:)
qed

text \<open>
  The call \<^verbatim>\<open>add_cluster_node("LOG008", "127.0.0.2", "write", cpulimit="8", topic="t",
  status="active")\<close>.
\<close>

theorem add_cluster_node_body_witness:
  "kwargs_bindable [''topic'' \<mapsto> PStr ''t'', ''status'' \<mapsto> PStr ''active'']
   \<and> add_cluster_node_data ''LOG008'' ''127.0.0.2'' ''write'' (Some ''8'') None
        [''topic'' \<mapsto> PStr ''t'', ''status'' \<mapsto> PStr ''active'']
      = [''address'' \<mapsto> PStr ''127.0.0.2'', ''clustername'' \<mapsto> PStr ''LOG008'',
         ''role'' \<mapsto> PStr ''write'', ''cpulimit'' \<mapsto> PStr ''8'',
         ''topic'' \<mapsto> PStr ''t'', ''status'' \<mapsto> PStr ''active'']
   \<and> ''cpulimit'' \<in> dom (add_cluster_node_data ''LOG008'' ''127.0.0.2'' ''write'' (Some ''8'') None
        [''topic'' \<mapsto> PStr ''t'', ''status'' \<mapsto> PStr ''active''])
   \<and> ''memlimit'' \<notin> dom (add_cluster_node_data ''LOG008'' ''127.0.0.2'' ''write'' (Some ''8'') None
        [''topic'' \<mapsto> PStr ''t'', ''status'' \<mapsto> PStr ''active''])
   \<and> add_cluster_node_data ''LOG008'' ''127.0.0.2'' ''write'' (Some ''8'') None
        [''topic'' \<mapsto> PStr ''t'', ''status'' \<mapsto> PStr ''active''] ''topic'' = Some (PStr ''t'')"
proof -
  have eq: "add_cluster_node_data ''LOG008'' ''127.0.0.2'' ''write'' (Some ''8'') None
        [''topic'' \<mapsto> PStr ''t'', ''status'' \<mapsto> PStr ''active'']
      = [''address'' \<mapsto> PStr ''127.0.0.2'', ''clustername'' \<mapsto> PStr ''LOG008'',
         ''role'' \<mapsto> PStr ''write'', ''cpulimit'' \<mapsto> PStr ''8'',
         ''topic'' \<mapsto> PStr ''t'', ''status'' \<mapsto> PStr ''active'']"
    by (rule ext) (simp add: add_cluster_node_data_def map_add_def)
  have b: "kwargs_bindable [''topic'' \<mapsto> PStr ''t'', ''status'' \<mapsto> PStr ''active'']"
    by (simp add: kwargs_bindable_def)
  from b show ?thesis
    using add_cluster_node_body
      [of "''LOG008''" "''127.0.0.2''" "''write''"
          "[''topic'' \<mapsto> PStr ''t'', ''status'' \<mapsto> PStr ''active'']" "Some ''8''" None
          example_client echo_url]
    unfolding eq by simp
qed

section \<open>List-style operations\<close>

text \<open>
  Claim C5. When the transport answers with a status outside 400--599 and a dict body
  whose \<^verbatim>\<open>code\<close> is 0 (compares equal to 0), \<^verbatim>\<open>get_clusters\<close>, \<^verbatim>\<open>get_subsystems\<close>,
  \<^verbatim>\<open>get_cluster_subsystems\<close> and \<^verbatim>\<open>search_subsystems\<close> return exactly the body's
  \<^verbatim>\<open>result\<close>, and the empty list when the body has no \<^verbatim>\<open>result\<close>.
\<close>

theorem list_operations_unwrap_result:
  assumes "\<And>req. t req = Responds r"
    and "\<not> (400 \<le> status_code r \<and> status_code r < 600)"
    and "body_json r = Some (PDict d)"
    and "d ''code'' = Some code" and "\<not> py_ne_zero code"
  shows "(d ''result'' = Some L \<longrightarrow>
            get_clusters c t = Inr L
          \<and> get_subsystems c t = Inr L
          \<and> get_cluster_subsystems c t cluster_name = Inr L
          \<and> search_subsystems c t subsys_id limit = Inr L)
       \<and> (d ''result'' = None \<longrightarrow>
            get_clusters c t = Inr (PList [])
          \<and> get_subsystems c t = Inr (PList [])
          \<and> get_cluster_subsystems c t cluster_name = Inr (PList [])
          \<and> search_subsystems c t subsys_id limit = Inr (PList []))"
  using unwrap_checked [OF assms]
  by (simp add: get_clusters_def get_subsystems_def get_cluster_subsystems_def
        search_subsystems_def dict_get_def)

text \<open>
  The specification's two bodies: \<^verbatim>\<open>{code: 0, result: [{"clustername": "a"}]}\<close> and
  \<^verbatim>\<open>{code: 0}\<close>.
\<close>

theorem list_operations_unwrap_result_witness:
  "get_clusters example_client
     (\<lambda>req. Responds \<lparr> status_code = 200,
         body_json = Some (PDict [''code'' \<mapsto> PInt 0,
                                  ''result'' \<mapsto> PList [PDict [''clustername'' \<mapsto> PStr ''a'']]]),
         body_text = [] \<rparr>)
     = Inr (PList [PDict [''clustername'' \<mapsto> PStr ''a'']])
   \<and> get_clusters example_client
     (\<lambda>req. Responds \<lparr> status_code = 200,
         body_json = Some (PDict [''code'' \<mapsto> PInt 0]), body_text = [] \<rparr>)
     = Inr (PList [])"
  using
    list_operations_unwrap_result
      [of "\<lambda>req. Responds \<lparr> status_code = 200,
         body_json = Some (PDict [''code'' \<mapsto> PInt 0,
                                  ''result'' \<mapsto> PList [PDict [''clustername'' \<mapsto> PStr ''a'']]]),
         body_text = [] \<rparr>"
        "\<lparr> status_code = 200,
         body_json = Some (PDict [''code'' \<mapsto> PInt 0,
                                  ''result'' \<mapsto> PList [PDict [''clustername'' \<mapsto> PStr ''a'']]]),
         body_text = [] \<rparr>"
        "[''code'' \<mapsto> PInt 0, ''result'' \<mapsto> PList [PDict [''clustername'' \<mapsto> PStr ''a'']]]"
        "PInt 0" "PList [PDict [''clustername'' \<mapsto> PStr ''a'']]" example_client "[]" None 20]
    list_operations_unwrap_result
      [of "\<lambda>req. Responds \<lparr> status_code = 200,
         body_json = Some (PDict [''code'' \<mapsto> PInt 0]), body_text = [] \<rparr>"
        "\<lparr> status_code = 200,
         body_json = Some (PDict [''code'' \<mapsto> PInt 0]), body_text = [] \<rparr>"
        "[''code'' \<mapsto> PInt 0]"
        "PInt 0" PNone example_client "[]" None 20]
  by simp

section \<open>The query of the subsystem search\<close>

text \<open>
  Claim C10. \<^verbatim>\<open>search_subsystems\<close> puts \<^verbatim>\<open>subsysId\<close> among the query parameters
  exactly when \<^verbatim>\<open>subsys_id\<close> is truthy (neither \<^verbatim>\<open>None\<close> nor the empty string), and
  \<^verbatim>\<open>limit\<close> exactly when it differs from 20; there is no other parameter. With the
  default arguments the parameters are empty. They are the \<^verbatim>\<open>params\<close> of the GET request
  handed to the transport.
\<close>

theorem search_subsystems_query_parameters:
  "(''subsysId'' \<in> dom (search_subsystems_params subsys_id limit)) = truthy subsys_id
   \<and> (''limit'' \<in> dom (search_subsystems_params subsys_id limit)) = (limit \<noteq> 20)
   \<and> dom (search_subsystems_params subsys_id limit) \<subseteq> {''subsysId'', ''limit''}
   \<and> (truthy subsys_id \<longrightarrow>
        search_subsystems_params subsys_id limit ''subsysId'' = Some (optional_str subsys_id))
   \<and> (limit \<noteq> 20 \<longrightarrow> search_subsystems_params subsys_id limit ''limit'' = Some (PInt limit))
   \<and> truthy None = False \<and> truthy (Some []) = False
   \<and> search_subsystems_params None 20 = Map.empty
   \<and> search_subsystems_params (Some []) 20 = Map.empty
   \<and> search_subsystems c t subsys_id limit
       = unwrap_result
           (case t \<lparr> req_method = ''GET'',
                      req_url = client_base_url c @ ''/operation/subsystems/search'',
                      req_json = None,
                      req_params = Some (search_subsystems_params subsys_id limit),
                      req_timeout = client_timeout c \<rparr>
            of Raises e \<Rightarrow> Inl e | Responds r \<Rightarrow> check_response r)"
proof -
  have 1: "dom (search_subsystems_params subsys_id limit) \<subseteq> {''subsysId'', ''limit''}"
    by (simp add: search_subsystems_params_def Let_def)
  have 2: "truthy subsys_id \<Longrightarrow>
        search_subsystems_params subsys_id limit ''subsysId'' = Some (optional_str subsys_id)"
    by (simp add: search_subsystems_params_def Let_def)
  have 3: "limit \<noteq> 20 \<Longrightarrow> search_subsystems_params subsys_id limit ''limit'' = Some (PInt limit)"
    by (simp add: search_subsystems_params_def Let_def)
  have 4: "search_subsystems_params None 20 = Map.empty"
    "search_subsystems_params (Some []) 20 = Map.empty"
    by (simp_all add: search_subsystems_params_def Let_def)
  have 5: "search_subsystems c t subsys_id limit
       = unwrap_result
           (case t \<lparr> req_method = ''GET'',
                      req_url = client_base_url c @ ''/operation/subsystems/search'',
                      req_json = None,
                      req_params = Some (search_subsystems_params subsys_id limit),
                      req_timeout = client_timeout c \<rparr>
            of Raises e \<Rightarrow> Inl e | Responds r \<Rightarrow> check_response r)"
    by (simp add: search_subsystems_def request_unfold no_kwargs_def)
  show ?thesis
    using 1 2 3 4 5 params_subsysId [of subsys_id limit] params_limit [of subsys_id limit]
    by (intro conjI impI) simp_all
qed

text \<open>\<^verbatim>\<open>search_subsystems("sys1", 10)\<close>, and the two calls that send no parameter.\<close>

theorem search_subsystems_query_parameters_witness:
  "search_subsystems_params (Some ''sys1'') 10
     = [''subsysId'' \<mapsto> PStr ''sys1'', ''limit'' \<mapsto> PInt 10]
   \<and> search_subsystems_params (Some []) 20 = Map.empty
   \<and> search_subsystems_params None 20 = Map.empty"
proof -
  have "search_subsystems_params (Some ''sys1'') 10 ''subsysId'' = Some (PStr ''sys1'')
      \<and> search_subsystems_params (Some ''sys1'') 10 ''limit'' = Some (PInt 10)
      \<and> dom (search_subsystems_params (Some ''sys1'') 10) \<subseteq> {''subsysId'', ''limit''}"
    using search_subsystems_query_parameters [of "Some ''sys1''" 10 example_client echo_url]
    by simp
  then have "search_subsystems_params (Some ''sys1'') 10 k
      = [''subsysId'' \<mapsto> PStr ''sys1'', ''limit'' \<mapsto> PInt 10] k" for k
    by (cases "k \<in> dom (search_subsystems_params (Some ''sys1'') 10)") (auto simp: domIff)
  then have "search_subsystems_params (Some ''sys1'') 10
      = [''subsysId'' \<mapsto> PStr ''sys1'', ''limit'' \<mapsto> PInt 10]"
    by (rule ext)
  then show ?thesis
    using search_subsystems_query_parameters [of None 20 example_client echo_url]
    by simp
qed

section \<open>Configuration resolution\<close>

text \<open>
  Claim C6 says that \<^verbatim>\<open>from_yaml\<close> raises \<^verbatim>\<open>FileNotFoundError\<close> (the specification's
  ConfigNotFound) when nothing exists at the resolved path, and \<^verbatim>\<open>ValueError\<close>
  (InvalidEnvironment) when the selected environment is not in the document and whenever
  the selected block lacks \<^verbatim>\<open>base_url\<close>; the docstring of \<^verbatim>\<open>from_yaml\<close> promises
  \<^verbatim>\<open>ValueError\<close> for a missing or malformed environment as well. The code does not keep
  this for every block: line 101 tests \<^verbatim>\<open>'base_url' not in env_config\<close> on whatever the
  document holds, and on the empty block of \<^verbatim>\<open>dev:\<close>, which is \<^verbatim>\<open>None\<close> and so lacks
  \<^verbatim>\<open>base_url\<close>, the test itself raises \<^verbatim>\<open>TypeError\<close> before line 102 is reached,
  with the environment named explicitly or taken by default.
\<close>

theorem from_yaml_null_block_type_error:
  "dev_null_block ''dev'' = Some PNone
   \<and> from_yaml [''config.yaml'' \<mapsto> Inr (PDict dev_null_block)] ''config.yaml'' None
        (Some ''dev'') = Inl TypeError
   \<and> from_yaml [''config.yaml'' \<mapsto> Inr (PDict dev_null_block)] ''config.yaml'' None None
        = Inl TypeError"
  by (simp add: dev_null_block_def from_yaml_def selected_env_def dict_get_def)

text \<open>
  The rest of that contract holds. Nothing at the resolved path raises
  \<^verbatim>\<open>FileNotFoundError\<close>. On a document that is a mapping, a selected environment name
  (the argument, or else the document's \<^verbatim>\<open>active_env\<close>) that is not a key of the document
  raises the \<^verbatim>\<open>ValueError\<close> of line 96, and a selected block that is a mapping without
  \<^verbatim>\<open>base_url\<close> raises the \<^verbatim>\<open>ValueError\<close> of line 102.
\<close>

lemma from_yaml_errors:
  assumes "path = (case config_path of None \<Rightarrow> default_path | Some p \<Rightarrow> p)"
  shows "(fs path = None \<longrightarrow>
            from_yaml fs default_path config_path env = Inl (FileNotFoundError path))
       \<and> (fs path = Some (Inr (PDict doc)) \<and> selected_env doc env = PStr e \<and> doc e = None \<longrightarrow>
            from_yaml fs default_path config_path env = Inl (ValueError_env (PStr e)))
       \<and> (fs path = Some (Inr (PDict doc)) \<and> selected_env doc env = PStr e
            \<and> doc e = Some (PDict block) \<and> block ''base_url'' = None \<longrightarrow>
            from_yaml fs default_path config_path env = Inl (ValueError_base_url (PStr e)))
       \<and> selected_env doc (Some e) = PStr e
       \<and> (doc ''active_env'' = Some (PStr e) \<longrightarrow> selected_env doc None = PStr e)"
proof -
  have 1: "fs path = None \<Longrightarrow>
      from_yaml fs default_path config_path env = Inl (FileNotFoundError path)"
    using assms by (simp add: from_yaml_def Let_def)
  have 2: "fs path = Some (Inr (PDict doc)) \<Longrightarrow> selected_env doc env = PStr e \<Longrightarrow> doc e = None
      \<Longrightarrow> from_yaml fs default_path config_path env = Inl (ValueError_env (PStr e))"
    using assms by (simp add: from_yaml_dict)
  have 3: "fs path = Some (Inr (PDict doc)) \<Longrightarrow> selected_env doc env = PStr e
      \<Longrightarrow> doc e = Some (PDict block) \<Longrightarrow> block ''base_url'' = None
      \<Longrightarrow> from_yaml fs default_path config_path env = Inl (ValueError_base_url (PStr e))"
    using assms by (simp add: from_yaml_dict)
  have 4: "selected_env doc (Some e) = PStr e"
    "doc ''active_env'' = Some (PStr e) \<Longrightarrow> selected_env doc None = PStr e"
    by (simp_all add: selected_env_def dict_get_def)
  show ?thesis
    using 1 2 3 4 by (intro conjI impI) simp_all
qed

text \<open>
  No file; the environment \<^verbatim>\<open>test\<close> that the document does not hold; the declared
  default \<^verbatim>\<open>prod\<close> whose block has no \<^verbatim>\<open>base_url\<close>.
\<close>

lemma from_yaml_errors_witness:
  "from_yaml Map.empty ''config.yaml'' None None = Inl (FileNotFoundError ''config.yaml'')
   \<and> from_yaml [''config.yaml'' \<mapsto> Inr (PDict example_document)] ''config.yaml'' None
        (Some ''test'') = Inl (ValueError_env (PStr ''test''))
   \<and> from_yaml [''config.yaml'' \<mapsto> Inr (PDict example_document)] ''config.yaml'' None None
        = Inl (ValueError_base_url (PStr ''prod''))"
  using
    from_yaml_errors [where path = "''config.yaml''" and config_path = None
        and default_path = "''config.yaml''" and fs = Map.empty and env = None]
    from_yaml_errors [where path = "''config.yaml''" and config_path = None
        and default_path = "''config.yaml''"
        and fs = "[''config.yaml'' \<mapsto> Inr (PDict example_document)]"
        and env = "Some ''test''" and doc = example_document and e = "''test''"]
    from_yaml_errors [where path = "''config.yaml''" and config_path = None
        and default_path = "''config.yaml''"
        and fs = "[''config.yaml'' \<mapsto> Inr (PDict example_document)]"
        and env = None and doc = example_document and e = "''prod''"
        and block = "[''username'' \<mapsto> PStr ''admin'']"]
  by (simp add: example_document_def selected_env_def dict_get_def)

text \<open>
  Claim C9, as amended. With the environment omitted and no \<^verbatim>\<open>active_env\<close> in the
  document, the environment is the literal \<^verbatim>\<open>dev\<close>. Resolution raises the
  missing-environment \<^verbatim>\<open>ValueError\<close> exactly when the document has no \<^verbatim>\<open>dev\<close> entry;
  it never fails for the lack of a declared default. It succeeds exactly when the
  \<^verbatim>\<open>dev\<close> entry is a mapping that has \<^verbatim>\<open>base_url\<close>, and then returns
  \<^verbatim>\<open>from_dict\<close> of that block.
\<close>

theorem from_yaml_default_dev:
  assumes "path = (case config_path of None \<Rightarrow> default_path | Some p \<Rightarrow> p)"
    and "fs path = Some (Inr (PDict doc))"
    and "doc ''active_env'' = None"
  shows "selected_env doc None = PStr ''dev''
       \<and> (from_yaml fs default_path config_path None = Inl (ValueError_env (PStr ''dev'')))
           = (doc ''dev'' = None)
       \<and> (\<exists>cfg. from_yaml fs default_path config_path None = Inr cfg)
           = (\<exists>block. doc ''dev'' = Some (PDict block) \<and> block ''base_url'' \<noteq> None)
       \<and> (doc ''dev'' = Some (PDict block) \<and> block ''base_url'' \<noteq> None \<longrightarrow>
            from_yaml fs default_path config_path None = Inr (from_dict block))"
proof -
  have s: "selected_env doc None = PStr ''dev''"
    using assms(3) by (simp add: selected_env_def dict_get_def)
  have f: "from_yaml fs default_path config_path None =
      (case doc ''dev'' of
         None \<Rightarrow> Inl (ValueError_env (PStr ''dev''))
       | Some env_config \<Rightarrow> check_block (PStr ''dev'') env_config)"
    using assms(1,2)
      from_yaml_dict [where env = None and path = path and config_path = config_path
        and default_path = default_path and fs = fs and doc = doc]
    by (simp add: s split: option.splits)
  have 1: "(from_yaml fs default_path config_path None = Inl (ValueError_env (PStr ''dev'')))
           = (doc ''dev'' = None)"
  proof (cases "doc ''dev''")
    case None
    then show ?thesis by (simp add: f)
  next
    case (Some v)
    then show ?thesis by (cases v) (simp_all add: f)
  qed
  have 2: "(\<exists>cfg. from_yaml fs default_path config_path None = Inr cfg)
           = (\<exists>block. doc ''dev'' = Some (PDict block) \<and> block ''base_url'' \<noteq> None)"
  proof (cases "doc ''dev''")
    case None
    then show ?thesis by (simp add: f)
  next
    case (Some v)
    then show ?thesis using check_block_success [of "PStr ''dev''" v] by (simp add: f)
  qed
  have 3: "doc ''dev'' = Some (PDict block) \<Longrightarrow> block ''base_url'' \<noteq> None \<Longrightarrow>
            from_yaml fs default_path config_path None = Inr (from_dict block)"
    by (simp add: f)
  show ?thesis
    using s 1 2 3 by (intro conjI impI) simp_all
qed

text \<open>A document with only a \<^verbatim>\<open>dev\<close> block that has \<^verbatim>\<open>base_url\<close> resolves.\<close>

theorem from_yaml_default_dev_witness:
  "from_yaml [''config.yaml'' \<mapsto> Inr (PDict dev_with_base_url)] ''config.yaml'' None None
     = Inr example_config
   \<and> dev_with_base_url ''active_env'' = None"
  using from_yaml_default_dev [where path = "''config.yaml''" and config_path = None
      and default_path = "''config.yaml''"
      and fs = "[''config.yaml'' \<mapsto> Inr (PDict dev_with_base_url)]"
      and doc = dev_with_base_url
      and block = "[''base_url'' \<mapsto> PStr ''http://host:8080/'']"]
  by (simp add: dev_with_base_url_def example_config_def)

text \<open>
  The claim as first stated, success exactly when the document has a \<^verbatim>\<open>dev\<close> entry,
  fails: a \<^verbatim>\<open>dev\<close> block without \<^verbatim>\<open>base_url\<close> is rejected at line 102.
\<close>

theorem from_yaml_default_dev_counterexample:
  "dev_without_base_url ''active_env'' = None
   \<and> dev_without_base_url ''dev'' \<noteq> None
   \<and> from_yaml [''config.yaml'' \<mapsto> Inr (PDict dev_without_base_url)] ''config.yaml'' None None
       = Inl (ValueError_base_url (PStr ''dev''))"
  by (simp add: dev_without_base_url_def from_yaml_def selected_env_def dict_get_def)

section \<open>The configuration under the client's operations\<close>

text \<open>
  Claim C7, as amended. The client keeps the configuration it was built with: no public
  method, no sequence of them, and neither \<^verbatim>\<open>__enter__\<close> nor \<^verbatim>\<open>__exit__\<close> changes
  any of its fields.
\<close>

theorem config_unchanged_by_client:
  "config (snd (perform c t call)) = config c
   \<and> config (perform_all c t calls) = config c
   \<and> config (WeapmClient_enter c) = config c
   \<and> config (WeapmClient_exit c exc_type exc_val exc_tb) = config c
   \<and> (WeapmClient_init cfg = Inr c' \<longrightarrow> config c' = cfg)"
  by (auto simp: perform_config perform_all_config WeapmClient_enter_def WeapmClient_exit_def
        close_def WeapmClient_init_def split: pyval.splits)

text \<open>The example client after a dashboard read, a search and \<^verbatim>\<open>close\<close>.\<close>

theorem config_unchanged_by_client_witness:
  "WeapmClient_init example_config = Inr example_client
   \<and> config example_client = example_config
   \<and> config (perform_all example_client echo_url [Get_dashboard, Search_subsystems None 10, Close])
       = example_config"
  using config_unchanged_by_client
    [of example_client echo_url Get_dashboard "[Get_dashboard, Search_subsystems None 10, Close]"
        None None None example_config example_client]
  by (simp add: init_example)

text \<open>
  The claim as first stated also says that the value admits no field reassignment. It
  does: the dataclass is not frozen, so \<^verbatim>\<open>cfg.base_url = 'http://other'\<close> raises nothing
  and changes the field.
\<close>

theorem config_field_reassigned_counterexample:
  "WeapmConfig_setattr example_config ''base_url'' (PStr ''http://other'')
     = Inr (example_config\<lparr>base_url := PStr ''http://other''\<rparr>)
   \<and> base_url example_config = PStr ''http://host:8080/''
   \<and> base_url (example_config\<lparr>base_url := PStr ''http://other''\<rparr>) = PStr ''http://other''"
  by (simp add: WeapmConfig_setattr_def dataclass_setattr_def WeapmConfig_frozen_def
        example_config_def from_dict_def dict_get_def)

section \<open>Release of the session\<close>

text \<open>
  Claim C8. \<^verbatim>\<open>__exit__\<close> is \<^verbatim>\<open>close()\<close> whatever exception information it receives,
  and \<^verbatim>\<open>close()\<close> closes the session. So the session is closed after a \<^verbatim>\<open>with\<close>
  statement on the client, whether its block returned or raised, and the block's outcome
  is passed on.
\<close>

theorem session_closed_on_exit:
  "WeapmClient_exit c exc_type exc_val exc_tb = close c
   \<and> closed (session (close c))
   \<and> closed (session (WeapmClient_exit c exc_type exc_val exc_tb))
   \<and> closed (session (snd (with_client c block)))
   \<and> fst (with_client c block) = fst (block c)"
  by (simp add: WeapmClient_exit_def WeapmClient_enter_def close_def with_client_def
        split: prod.splits sum.splits)

end
